theory Spec2Isabelle
  imports Complex_Main
begin

section \<open>MultitaskVariationalStrategy: a shallow embedding\<close>

text \<open>
  The development follows \<^verbatim>\<open>gpytorch/variational/multitask_variational_strategy.py\<close>.
  The class wraps a base variational strategy and turns the batch distribution the base
  produces into a multi-task distribution. Python integers are \<open>int\<close>, shapes are lists of
  naturals, a raised exception is the \<open>Inl\<close> branch of a sum, and the attributes of the
  instance are the fields of a record that the stateful operations return updated.
\<close>

subsection \<open>Exceptions\<close>

datatype error =
    AssertionError
  | IndexError
  | Raised string   \<comment> \<open>any exception surfaced unmodified from a collaborator\<close>

subsection \<open>Tensors and the reduction along one axis\<close>

text \<open>
  The tensor library is external to the repository. A tensor is its shape together with
  the entry at each index; entries are real numbers (floating-point rounding is left out).
  \<open>tensor_sum t d\<close> is \<^verbatim>\<open>t.sum(dim=d)\<close>: a negative axis counts from the end, an
  axis out of range raises, and a tensor without axes accepts the axes \<open>0\<close> and \<open>-1\<close> and
  is returned as it is.
\<close>

record tensor =
  shape :: "nat list"
  entry :: "nat list \<Rightarrow> real"

definition tensor_sum :: "tensor \<Rightarrow> int \<Rightarrow> error + tensor" where
  "tensor_sum t d =
     (let r = int (length (shape t)) in
      if r = 0 then (if d = 0 \<or> d = - 1 then Inr t else Inl IndexError)
      else if d < - r \<or> r \<le> d then Inl IndexError
      else
        (let k = nat (if d < 0 then d + r else d) in
         Inr \<lparr>shape = take k (shape t) @ drop (Suc k) (shape t),
              entry = (\<lambda>idx. sum_list (map (\<lambda>j. entry t (take k idx @ j # drop k idx))
                                          [0 ..< shape t ! k]))\<rparr>))"

subsection \<open>The distribution library\<close>

text \<open>
  The distribution classes are not part of the file. The wrapper uses four of their
  operations and nothing else, so they are parameters of the model: the theorems hold for
  every distribution type \<open>'d\<close> and every implementation of the four operations.
\<close>

record 'd dist_lib =
  batch_shape :: "'d \<Rightarrow> nat list"
  event_shape :: "'d \<Rightarrow> nat list"
  to_multitask_from_batch :: "'d \<Rightarrow> int \<Rightarrow> error + 'd"
  to_multitask :: "'d \<Rightarrow> int \<Rightarrow> error + 'd"

text \<open>\<^verbatim>\<open>shape[-1]\<close>: the last entry of a shape, \<^verbatim>\<open>IndexError\<close> on the empty shape.\<close>

definition last_dim :: "nat list \<Rightarrow> error + int" where
  "last_dim sh = (case sh of [] \<Rightarrow> Inl IndexError | _ # _ \<Rightarrow> Inr (int (last sh)))"

subsection \<open>The base variational strategy\<close>

text \<open>
  The base strategy is an external collaborator. It is the record of what the wrapper
  consumes from it: the current values of its three accessors, the results of calling it
  and of its \<^verbatim>\<open>prior\<close> method on an input, and the result of its KL computation.
\<close>

record ('x, 'd) base_strategy =
  base_prior_distribution :: "'d"
  base_variational_distribution :: "'d"
  base_variational_params_initialized :: "int"
  base_call :: "'x \<Rightarrow> error + 'd"
  base_prior :: "'x \<Rightarrow> error + 'd"
  base_kl_divergence :: "error + tensor"

subsection \<open>The instance\<close>

text \<open>
  The attributes of a \<^verbatim>\<open>MultitaskVariationalStrategy\<close>. \<open>training\<close> is the mode flag
  inherited from \<^verbatim>\<open>Module\<close>. \<open>memoize_cache\<close> is the attribute \<^verbatim>\<open>_memoize_cache\<close>:
  \<open>None\<close> when the instance has no such attribute, \<open>Some m\<close> when it holds the dictionary
  \<open>m\<close> from memo names to cached distributions.
\<close>

record ('x, 'd) strategy =
  base_variational_strategy :: "('x, 'd) base_strategy"
  task_dim :: "int"
  num_tasks :: "int"
  training :: "bool"
  memoize_cache :: "(string \<rightharpoonup> 'd) option"

text \<open>
  \<^verbatim>\<open>__init__(self, base_variational_strategy, num_tasks, task_dim=-1)\<close>. The optional
  argument is \<open>None\<close> when the caller omits it. \<^verbatim>\<open>Module.__init__\<close> leaves a fresh module
  in training mode and creates no memoization cache.
\<close>

definition init :: "('x, 'd) base_strategy \<Rightarrow> int \<Rightarrow> int option \<Rightarrow> ('x, 'd) strategy" where
  "init base n td =
     \<lparr>base_variational_strategy = base,
      task_dim = (case td of None \<Rightarrow> - 1 | Some d \<Rightarrow> d),
      num_tasks = n,
      training = True,
      memoize_cache = None\<rparr>"

subsection \<open>Memoization\<close>

text \<open>
  Modelled from the spec: the decorator \<^verbatim>\<open>cached\<close> of \<^verbatim>\<open>gpytorch/utils/memoize.py\<close> is
  not among the sources. The spec describes it as per-instance memoization under a name:
  a value computed once is kept in the instance's cache and a repeated request returns the
  kept value instead of computing again.
\<close>

definition cache_lookup :: "('x, 'd) strategy \<Rightarrow> string \<Rightarrow> 'd option" where
  "cache_lookup self name =
     (case memoize_cache self of None \<Rightarrow> None | Some m \<Rightarrow> m name)"

definition is_in_cache :: "('x, 'd) strategy \<Rightarrow> string \<Rightarrow> bool" where
  "is_in_cache self name = (cache_lookup self name \<noteq> None)"

definition add_to_cache :: "('x, 'd) strategy \<Rightarrow> string \<Rightarrow> 'd \<Rightarrow> ('x, 'd) strategy" where
  "add_to_cache self name v =
     self\<lparr>memoize_cache :=
            Some ((case memoize_cache self of None \<Rightarrow> Map.empty | Some m \<Rightarrow> m)(name \<mapsto> v))\<rparr>"

definition cached ::
  "string \<Rightarrow> (('x, 'd) strategy \<Rightarrow> 'd) \<Rightarrow> ('x, 'd) strategy \<Rightarrow> 'd \<times> ('x, 'd) strategy" where
  "cached name method self =
     (case cache_lookup self name of
        Some v \<Rightarrow> (v, self)
      | None \<Rightarrow> (let v = method self in (v, add_to_cache self name v)))"

subsection \<open>Accessors\<close>

definition prior_distribution :: "('x, 'd) strategy \<Rightarrow> 'd \<times> ('x, 'd) strategy" where
  "prior_distribution =
     cached ''prior_distribution_memo''
       (\<lambda>self. base_prior_distribution (base_variational_strategy self))"

definition variational_distribution :: "('x, 'd) strategy \<Rightarrow> 'd \<times> ('x, 'd) strategy" where
  "variational_distribution =
     cached ''variational_distribution_memo''
       (\<lambda>self. base_variational_distribution (base_variational_strategy self))"

definition variational_params_initialized :: "('x, 'd) strategy \<Rightarrow> int" where
  "variational_params_initialized self =
     base_variational_params_initialized (base_variational_strategy self)"

subsection \<open>forward, kl\_divergence, prior\<close>

definition forward :: "'d dist_lib \<Rightarrow> ('x, 'd) strategy \<Rightarrow> 'x \<Rightarrow> error + 'd" where
  "forward L self inputs =
     (case base_call (base_variational_strategy self) inputs of
        Inl e \<Rightarrow> Inl e
      | Inr function_dist \<Rightarrow>
          (case to_multitask_from_batch L function_dist (task_dim self) of
             Inl e \<Rightarrow> Inl e
           | Inr function_dist' \<Rightarrow>
               (case last_dim (event_shape L function_dist') of
                  Inl e \<Rightarrow> Inl e
                | Inr n \<Rightarrow>
                    if n = num_tasks self then Inr function_dist'
                    else Inl AssertionError)))"

text \<open>
  Modelled from the spec: \<^verbatim>\<open>_VariationalStrategy.kl_divergence\<close>, the method reached by
  \<^verbatim>\<open>super().kl_divergence()\<close>, is not among the sources. The spec says that the wrapper's
  KL divergence delegates to the base strategy's KL computation.
\<close>

definition super_kl_divergence :: "('x, 'd) strategy \<Rightarrow> error + tensor" where
  "super_kl_divergence self = base_kl_divergence (base_variational_strategy self)"

definition kl_divergence :: "('x, 'd) strategy \<Rightarrow> error + tensor" where
  "kl_divergence self =
     (case super_kl_divergence self of
        Inl e \<Rightarrow> Inl e
      | Inr kl \<Rightarrow> tensor_sum kl (- 1))"

text \<open>The condition of the \<^verbatim>\<open>if\<close> in \<^verbatim>\<open>prior\<close>, on the rank of the batch shape.\<close>

definition prior_expands :: "int \<Rightarrow> nat \<Rightarrow> bool" where
  "prior_expands td rank =
     (td > 0 \<and> td > int rank \<or> td < 0 \<and> td + int rank < 0)"

definition prior :: "'d dist_lib \<Rightarrow> ('x, 'd) strategy \<Rightarrow> 'x \<Rightarrow> error + 'd" where
  "prior L self inputs =
     (case base_prior (base_variational_strategy self) inputs of
        Inl e \<Rightarrow> Inl e
      | Inr function_dist \<Rightarrow>
          if prior_expands (task_dim self) (length (batch_shape L function_dist))
          then to_multitask L function_dist (num_tasks self)
          else
            (case to_multitask_from_batch L function_dist (task_dim self) of
               Inl e \<Rightarrow> Inl e
             | Inr function_dist' \<Rightarrow>
                 (case last_dim (event_shape L function_dist') of
                    Inl e \<Rightarrow> Inl e
                  | Inr n \<Rightarrow>
                      if n = num_tasks self then Inr function_dist'
                      else Inl AssertionError)))"

subsection \<open>The call entry point\<close>

text \<open>
  Modelled from the spec: \<^verbatim>\<open>Module.__call__\<close>, the parent invocation machinery, is not
  among the sources. It runs \<^verbatim>\<open>forward\<close> on the input and returns its result; the
  attributes of the instance are as \<^verbatim>\<open>forward\<close> leaves them.
\<close>

definition Module_call ::
  "'d dist_lib \<Rightarrow> ('x, 'd) strategy \<Rightarrow> 'x \<Rightarrow> (error + 'd) \<times> ('x, 'd) strategy" where
  "Module_call L self x = (forward L self x, self)"

definition call ::
  "'d dist_lib \<Rightarrow> ('x, 'd) strategy \<Rightarrow> 'x \<Rightarrow> (error + 'd) \<times> ('x, 'd) strategy" where
  "call L self x =
     (let self' =
        (if training self then
           (case memoize_cache self of
              Some _ \<Rightarrow> self\<lparr>memoize_cache := Some Map.empty\<rparr>
            | None \<Rightarrow> self)
         else self)
      in Module_call L self' x)"

subsection \<open>The specification's wording\<close>

text \<open>
  The specification words the reduction as a sum over the task dimension, the axis
  configured as \<^verbatim>\<open>task_dim\<close>. This second definition follows those words; it is compared
  with \<open>kl_divergence\<close>, which follows the code.
\<close>

definition kl_divergence_over_task_dim :: "('x, 'd) strategy \<Rightarrow> error + tensor" where
  "kl_divergence_over_task_dim self =
     (case super_kl_divergence self of
        Inl e \<Rightarrow> Inl e
      | Inr kl \<Rightarrow> tensor_sum kl (task_dim self))"


subsection \<open>A distribution library on shapes, and concrete instances\<close>

text \<open>
  Modelled from the spec: the distribution classes are not among the sources. The spec
  names two operations, one that reinterprets a batch dimension as the task (event)
  dimension and one that expands a task-less distribution into a multi-task one. This
  instance keeps the shapes only: \<open>MVN b n\<close> is a batch of shape \<open>b\<close> of normal
  distributions over \<open>n\<close> points, \<open>MTMVN b n t\<close> a batch of multi-task distributions over
  \<open>n\<close> points and \<open>t\<close> tasks. The spec does not say what the reinterpretation does with
  an index that names no batch dimension; in this instance it raises. The instance serves
  to run the model on concrete inputs; no general theorem depends on it.
\<close>

datatype dist = MVN "nat list" nat | MTMVN "nat list" nat nat

fun dist_batch_shape :: "dist \<Rightarrow> nat list" where
  "dist_batch_shape (MVN b n) = b"
| "dist_batch_shape (MTMVN b n t) = b"

fun dist_event_shape :: "dist \<Rightarrow> nat list" where
  "dist_event_shape (MVN b n) = [n]"
| "dist_event_shape (MTMVN b n t) = [n, t]"

fun dist_to_multitask_from_batch :: "dist \<Rightarrow> int \<Rightarrow> error + dist" where
  "dist_to_multitask_from_batch (MVN b n) d =
     (let r = int (length b); k = (if d < 0 then d + r else d) in
      if 0 \<le> k \<and> k < r
      then Inr (MTMVN (take (nat k) b @ drop (Suc (nat k)) b) n (b ! nat k))
      else Inl (Raised ''ValueError''))"
| "dist_to_multitask_from_batch (MTMVN b n t) d = Inl (Raised ''ValueError'')"

fun dist_to_multitask :: "dist \<Rightarrow> int \<Rightarrow> error + dist" where
  "dist_to_multitask (MVN b n) t =
     (if 0 \<le> t then Inr (MTMVN b n (nat t)) else Inl (Raised ''ValueError''))"
| "dist_to_multitask (MTMVN b n t') t = Inl (Raised ''ValueError'')"

definition shape_lib :: "dist dist_lib" where
  "shape_lib =
     \<lparr>batch_shape = dist_batch_shape,
      event_shape = dist_event_shape,
      to_multitask_from_batch = dist_to_multitask_from_batch,
      to_multitask = dist_to_multitask\<rparr>"

text \<open>
  A KL tensor of shape \<open>[2, 3]\<close> with rows \<open>1 2 3\<close> and \<open>4 5 6\<close>, and a base strategy
  over a batch of shape \<open>[2, 3]\<close> whose input is the number of points.
\<close>

definition example_kl :: tensor where
  "example_kl =
     \<lparr>shape = [2, 3],
      entry = (\<lambda>idx. case idx of [i, j] \<Rightarrow> real (3 * i + j + 1) | _ \<Rightarrow> 0)\<rparr>"

definition example_base :: "(nat, dist) base_strategy" where
  "example_base =
     \<lparr>base_prior_distribution = MVN [2, 3] 5,
      base_variational_distribution = MVN [2, 3] 7,
      base_variational_params_initialized = 1,
      base_call = (\<lambda>n. Inr (MVN [2, 3] n)),
      base_prior = (\<lambda>n. Inr (MVN [2, 3] n)),
      base_kl_divergence = Inr example_kl\<rparr>"

text \<open>The same base after its distributions and its flag have changed.\<close>

definition example_base_later :: "(nat, dist) base_strategy" where
  "example_base_later =
     example_base
       \<lparr>base_prior_distribution := MVN [2, 3] 6,
        base_variational_distribution := MVN [2, 3] 8,
        base_variational_params_initialized := 0\<rparr>"

text \<open>A base whose prior has no batch dimension.\<close>

definition example_base_flat :: "(nat, dist) base_strategy" where
  "example_base_flat =
     example_base
       \<lparr>base_call := (\<lambda>n. Inr (MVN [] n)),
        base_prior := (\<lambda>n. Inr (MVN [] n))\<rparr>"


text \<open>
  Instances in evaluation mode: one fresh, one after both accessors have been read. And an
  instance in training mode that still holds a prior cached before its base changed.
\<close>

definition example_eval :: "(nat, dist) strategy" where
  "example_eval = (init example_base 3 None)\<lparr>training := False\<rparr>"



definition example_train_stale :: "(nat, dist) strategy" where
  "example_train_stale =
     (init example_base_later 3 None)
       \<lparr>training := True,
        memoize_cache := Some [''prior_distribution_memo'' \<mapsto> MVN [2, 3] 5]\<rparr>"

section \<open>Construction\<close>

text \<open>
  C7. The constructor is total (it has no failing branch, so it validates nothing): for
  every base strategy, task count and task dimension the new instance holds exactly the
  three arguments, and an omitted task dimension is stored as \<open>-1\<close>, the last dimension.
\<close>

theorem init_stores_verbatim:
  "base_variational_strategy (init base n (Some d)) = base
   \<and> num_tasks (init base n (Some d)) = n
   \<and> task_dim (init base n (Some d)) = d
   \<and> base_variational_strategy (init base n None) = base
   \<and> num_tasks (init base n None) = n
   \<and> task_dim (init base n None) = - 1"
  by (simp add: init_def)

section \<open>The memoized accessors\<close>

subsection \<open>Facts about the cache\<close>



lemma cached_miss:
  "cache_lookup self name = None \<Longrightarrow>
   cached name method self = (method self, add_to_cache self name (method self))"
  by (simp add: cached_def Let_def)






subsection \<open>First access\<close>

text \<open>
  C6. When nothing is cached under the accessor's memo name, \<open>prior_distribution\<close> returns
  the base strategy's \<open>prior_distribution\<close> and \<open>variational_distribution\<close> returns the
  base strategy's \<open>variational_distribution\<close>, unchanged.
\<close>

theorem accessors_pass_through_uncached:
  "(\<not> is_in_cache self ''prior_distribution_memo'' \<longrightarrow>
      fst (prior_distribution self) = base_prior_distribution (base_variational_strategy self))
   \<and> (\<not> is_in_cache self ''variational_distribution_memo'' \<longrightarrow>
      fst (variational_distribution self)
        = base_variational_distribution (base_variational_strategy self))"
  by (simp add: is_in_cache_def prior_distribution_def variational_distribution_def cached_miss)

theorem accessors_pass_through_uncached_witness:
  "\<not> is_in_cache example_eval ''prior_distribution_memo''
   \<and> \<not> is_in_cache example_eval ''variational_distribution_memo''
   \<and> fst (prior_distribution example_eval) = MVN [2, 3] 5
   \<and> fst (variational_distribution example_eval) = MVN [2, 3] 7"
  using accessors_pass_through_uncached [where self = example_eval]
  by (simp add: is_in_cache_def cache_lookup_def example_eval_def init_def example_base_def)

subsection \<open>Repeated access\<close>



subsection \<open>The flag that is not memoized\<close>

text \<open>
  C10. \<open>variational_params_initialized\<close> returns the value the base strategy holds at the
  time of the access, whatever the mode (\<open>tr\<close>) and whatever the memoization cache holds
  (\<open>c\<close>): it reads no cache and writes none.
\<close>

theorem variational_params_initialized_pass_through:
  "variational_params_initialized
     (self\<lparr>training := tr, memoize_cache := c, base_variational_strategy := b\<rparr>)
   = base_variational_params_initialized b"
  by (simp add: variational_params_initialized_def)

section \<open>The call entry point in training mode\<close>

text \<open>
  C4. A call of the wrapper in training mode hands to the parent invocation the instance
  \<open>self'\<close> in which nothing is cached under any name: a cache that existed has been replaced
  by the empty dictionary (an instance that had no cache attribute still has none). The
  accessors read next therefore return the base strategy's current distributions, not a
  distribution cached before the call.
\<close>

theorem call_training_discards_cache:
  assumes "training self" and "call L self x = (r, self')"
  shows "call L self x = Module_call L self' x
       \<and> self' = self\<lparr>memoize_cache := map_option (\<lambda>_. Map.empty) (memoize_cache self)\<rparr>
       \<and> (\<forall>name. \<not> is_in_cache self' name)
       \<and> (memoize_cache self \<noteq> None \<longrightarrow> memoize_cache self' = Some Map.empty)
       \<and> fst (prior_distribution self')
           = base_prior_distribution (base_variational_strategy self)
       \<and> fst (variational_distribution self')
           = base_variational_distribution (base_variational_strategy self)"
proof -
  from assms
  have s: "self' = self\<lparr>memoize_cache := map_option (\<lambda>_. Map.empty) (memoize_cache self)\<rparr>"
    by (cases "memoize_cache self") (auto simp: call_def Module_call_def Let_def)
  have look: "cache_lookup self' name = None" for name
    unfolding s by (cases "memoize_cache self") (simp_all add: cache_lookup_def)
  have base: "base_variational_strategy self' = base_variational_strategy self"
    unfolding s by simp
  have deleg: "call L self x = Module_call L self' x"
    using assms(2) by (auto simp: call_def Module_call_def Let_def)
  have empty: "\<forall>name. \<not> is_in_cache self' name"
    by (simp add: is_in_cache_def look)
  have fresh: "memoize_cache self \<noteq> None \<longrightarrow> memoize_cache self' = Some Map.empty"
    unfolding s by auto
  have p: "fst (prior_distribution self')
      = base_prior_distribution (base_variational_strategy self)"
    by (simp add: prior_distribution_def cached_miss look base)
  have v: "fst (variational_distribution self')
      = base_variational_distribution (base_variational_strategy self)"
    by (simp add: variational_distribution_def cached_miss look base)
  from deleg s empty fresh p v show ?thesis by blast
qed

theorem call_training_discards_cache_witness:
  "training example_train_stale
   \<and> fst (prior_distribution example_train_stale) = MVN [2, 3] 5
   \<and> call shape_lib example_train_stale 4
       = (Inr (MTMVN [2] 4 3), example_train_stale\<lparr>memoize_cache := Some Map.empty\<rparr>)
   \<and> \<not> is_in_cache (example_train_stale\<lparr>memoize_cache := Some Map.empty\<rparr>)
         ''prior_distribution_memo''
   \<and> fst (prior_distribution (example_train_stale\<lparr>memoize_cache := Some Map.empty\<rparr>))
       = MVN [2, 3] 6
   \<and> training (init example_base 3 None)
   \<and> memoize_cache (init example_base 3 None) = None
   \<and> call shape_lib (init example_base 3 None) 4
       = (Inr (MTMVN [2] 4 3), init example_base 3 None)
   \<and> fst (prior_distribution (init example_base 3 None)) = MVN [2, 3] 5"
  using call_training_discards_cache
    [where self = example_train_stale and L = shape_lib and x = 4
       and r = "Inr (MTMVN [2] 4 3)"
       and self' = "example_train_stale\<lparr>memoize_cache := Some Map.empty\<rparr>"]
    call_training_discards_cache
    [where self = "init example_base 3 None" and L = shape_lib and x = 4
       and r = "Inr (MTMVN [2] 4 3)" and self' = "init example_base 3 None"]
  by (simp add: example_train_stale_def init_def call_def Module_call_def forward_def
      shape_lib_def last_dim_def example_base_def example_base_later_def is_in_cache_def
      cache_lookup_def prior_distribution_def cached_def Let_def)

section \<open>forward\<close>

text \<open>
  C3. Whatever \<open>forward\<close> returns is the base strategy's distribution for the input,
  reinterpreted along \<open>task_dim\<close>, and its last event dimension equals \<open>num_tasks\<close>. When the
  base strategy and the reinterpretation succeed and the result has an event dimension,
  \<open>forward\<close> returns that result if its last event dimension equals \<open>num_tasks\<close> and raises
  \<open>AssertionError\<close> otherwise.
\<close>

theorem forward_returns_num_tasks_or_raises:
  "(forward L self x = Inr res \<longrightarrow>
      (\<exists>fd. base_call (base_variational_strategy self) x = Inr fd
            \<and> to_multitask_from_batch L fd (task_dim self) = Inr res)
      \<and> event_shape L res \<noteq> []
      \<and> int (last (event_shape L res)) = num_tasks self)
   \<and> (base_call (base_variational_strategy self) x = Inr fd
      \<and> to_multitask_from_batch L fd (task_dim self) = Inr md
      \<and> event_shape L md \<noteq> [] \<longrightarrow>
      forward L self x =
        (if int (last (event_shape L md)) = num_tasks self then Inr md
         else Inl AssertionError))"
  by (auto simp: forward_def last_dim_def split: sum.splits list.splits if_splits)

theorem forward_returns_num_tasks_or_raises_witness:
  "base_call example_base 4 = Inr (MVN [2, 3] 4)
   \<and> to_multitask_from_batch shape_lib (MVN [2, 3] 4) (- 1) = Inr (MTMVN [2] 4 3)
   \<and> event_shape shape_lib (MTMVN [2] 4 3) = [4, 3]
   \<and> forward shape_lib (init example_base 3 None) 4 = Inr (MTMVN [2] 4 3)
   \<and> forward shape_lib (init example_base 2 None) 4 = Inl AssertionError"
  using forward_returns_num_tasks_or_raises
    [where L = shape_lib and self = "init example_base 3 None" and x = 4
       and res = "MTMVN [2] 4 3" and fd = "MVN [2, 3] 4" and md = "MTMVN [2] 4 3"]
    forward_returns_num_tasks_or_raises
    [where L = shape_lib and self = "init example_base 2 None" and x = 4
       and res = "MTMVN [2] 4 3" and fd = "MVN [2, 3] 4" and md = "MTMVN [2] 4 3"]
  by (simp add: init_def example_base_def shape_lib_def)

section \<open>prior\<close>


lemma prior_inside:
  assumes "base_prior (base_variational_strategy self) x = Inr fd"
    and "\<not> prior_expands (task_dim self) (length (batch_shape L fd))"
  shows "prior L self x =
     (case to_multitask_from_batch L fd (task_dim self) of
        Inl e \<Rightarrow> Inl e
      | Inr md \<Rightarrow>
          (case event_shape L md of
             [] \<Rightarrow> Inl IndexError
           | _ # _ \<Rightarrow>
               if int (last (event_shape L md)) = num_tasks self then Inr md
               else Inl AssertionError))"
  using assms by (simp add: prior_def last_dim_def split: sum.splits list.splits)

lemma prior_outside:
  assumes "base_prior (base_variational_strategy self) x = Inr fd"
    and "prior_expands (task_dim self) (length (batch_shape L fd))"
  shows "prior L self x = to_multitask L fd (num_tasks self)"
  using assms by (simp add: prior_def)





text \<open>
  C9. The condition of the expand branch is false for \<open>task_dim = 0\<close> at every rank, rank
  \<open>0\<close> included; for a positive \<open>task_dim\<close> it is true exactly when \<open>task_dim\<close> is strictly
  greater than the rank, so it is false when \<open>task_dim\<close> equals the rank. For
  \<open>task_dim = 0\<close> and for a positive \<open>task_dim\<close> up to and including the rank, \<open>prior\<close> takes
  the reinterpretation branch: its result is \<open>to_multitask_from_batch fd task_dim\<close> checked
  by the assertion on the last event dimension, and it does not use \<open>to_multitask\<close> at all
  (replacing that operation by any other \<open>f\<close> leaves the result unchanged). A positive
  \<open>task_dim\<close> greater than the rank returns what \<open>to_multitask\<close> returns.
\<close>

theorem prior_expand_branch_edges:
  "\<not> prior_expands 0 rank
   \<and> (0 < td \<longrightarrow> prior_expands td rank = (int rank < td))
   \<and> (0 < rank \<longrightarrow> \<not> prior_expands (int rank) rank)
   \<and> (base_prior (base_variational_strategy self) x = Inr fd
      \<and> (task_dim self = 0
          \<or> 0 < task_dim self \<and> task_dim self \<le> int (length (batch_shape L fd))) \<longrightarrow>
      prior L self x =
        (case to_multitask_from_batch L fd (task_dim self) of
           Inl e \<Rightarrow> Inl e
         | Inr md \<Rightarrow>
             (case event_shape L md of
                [] \<Rightarrow> Inl IndexError
              | _ # _ \<Rightarrow>
                  if int (last (event_shape L md)) = num_tasks self then Inr md
                  else Inl AssertionError)))
   \<and> (base_prior (base_variational_strategy self) x = Inr fd
      \<and> (task_dim self = 0
          \<or> 0 < task_dim self \<and> task_dim self \<le> int (length (batch_shape L fd))) \<longrightarrow>
      prior (L\<lparr>to_multitask := f\<rparr>) self x = prior L self x)
   \<and> (base_prior (base_variational_strategy self) x = Inr fd
      \<and> int (length (batch_shape L fd)) < task_dim self \<longrightarrow>
      prior L self x = to_multitask L fd (num_tasks self))"
proof -
  have c1: "\<not> prior_expands 0 rank"
    by (simp add: prior_expands_def)
  have c2: "0 < td \<longrightarrow> prior_expands td rank = (int rank < td)"
    by (auto simp: prior_expands_def)
  have c3: "0 < rank \<longrightarrow> \<not> prior_expands (int rank) rank"
    by (simp add: prior_expands_def)
  have no: "\<not> prior_expands (task_dim self) (length (batch_shape L fd))"
    if "task_dim self = 0
        \<or> 0 < task_dim self \<and> task_dim self \<le> int (length (batch_shape L fd))"
    using that by (auto simp: prior_expands_def)
  have c4: "prior L self x =
        (case to_multitask_from_batch L fd (task_dim self) of
           Inl e \<Rightarrow> Inl e
         | Inr md \<Rightarrow>
             (case event_shape L md of
                [] \<Rightarrow> Inl IndexError
              | _ # _ \<Rightarrow>
                  if int (last (event_shape L md)) = num_tasks self then Inr md
                  else Inl AssertionError))"
    if "base_prior (base_variational_strategy self) x = Inr fd"
      and "task_dim self = 0
        \<or> 0 < task_dim self \<and> task_dim self \<le> int (length (batch_shape L fd))"
    using that(1) no [OF that(2)] by (rule prior_inside)
  have c5: "prior (L\<lparr>to_multitask := f\<rparr>) self x = prior L self x"
    if "base_prior (base_variational_strategy self) x = Inr fd"
      and "task_dim self = 0
        \<or> 0 < task_dim self \<and> task_dim self \<le> int (length (batch_shape L fd))"
    using that(1) no [OF that(2)] by (simp add: prior_def split: sum.splits)
  have c6: "prior L self x = to_multitask L fd (num_tasks self)"
    if "base_prior (base_variational_strategy self) x = Inr fd"
      and "int (length (batch_shape L fd)) < task_dim self"
    using that by (intro prior_outside) (auto simp: prior_expands_def)
  from c1 c2 c3 c4 c5 c6 show ?thesis by blast
qed

theorem prior_expand_branch_edges_witness:
  "base_prior example_base_flat 4 = Inr (MVN [] 4)
   \<and> batch_shape shape_lib (MVN [] 4) = []
   \<and> \<not> prior_expands 0 0
   \<and> prior shape_lib (init example_base_flat 2 (Some 0)) 4
       = to_multitask_from_batch shape_lib (MVN [] 4) 0
   \<and> prior shape_lib (init example_base_flat 2 (Some 0)) 4
       \<noteq> to_multitask shape_lib (MVN [] 4) 2
   \<and> base_prior example_base 4 = Inr (MVN [2, 3] 4)
   \<and> batch_shape shape_lib (MVN [2, 3] 4) = [2, 3]
   \<and> \<not> prior_expands 2 2
   \<and> prior shape_lib (init example_base 2 (Some 2)) 4
       = to_multitask_from_batch shape_lib (MVN [2, 3] 4) 2
   \<and> prior shape_lib (init example_base 2 (Some 2)) 4
       \<noteq> to_multitask shape_lib (MVN [2, 3] 4) 2
   \<and> to_multitask_from_batch shape_lib (MVN [2, 3] 4) 1 = Inr (MTMVN [2] 4 3)
   \<and> prior shape_lib (init example_base 3 (Some 1)) 4 = Inr (MTMVN [2] 4 3)
   \<and> prior shape_lib (init example_base 2 (Some 1)) 4 = Inl AssertionError
   \<and> to_multitask_from_batch shape_lib (MVN [2, 3] 4) 0 = Inr (MTMVN [3] 4 2)
   \<and> prior shape_lib (init example_base 2 (Some 0)) 4 = Inr (MTMVN [3] 4 2)
   \<and> prior_expands 3 2
   \<and> prior shape_lib (init example_base 2 (Some 3)) 4 = Inr (MTMVN [2, 3] 4 2)"
  using prior_expand_branch_edges
    [where rank = 0 and td = 3 and self = "init example_base_flat 2 (Some 0)" and x = 4
       and fd = "MVN [] 4" and L = shape_lib and f = "\<lambda>d t. Inr d"]
    prior_expand_branch_edges
    [where rank = 2 and td = 3 and self = "init example_base 2 (Some 2)" and x = 4
       and fd = "MVN [2, 3] 4" and L = shape_lib and f = "\<lambda>d t. Inr d"]
    prior_expand_branch_edges
    [where rank = 2 and td = 3 and self = "init example_base 3 (Some 1)" and x = 4
       and fd = "MVN [2, 3] 4" and L = shape_lib and f = "\<lambda>d t. Inr d"]
    prior_expand_branch_edges
    [where rank = 2 and td = 3 and self = "init example_base 2 (Some 1)" and x = 4
       and fd = "MVN [2, 3] 4" and L = shape_lib and f = "\<lambda>d t. Inr d"]
    prior_expand_branch_edges
    [where rank = 2 and td = 3 and self = "init example_base 2 (Some 0)" and x = 4
       and fd = "MVN [2, 3] 4" and L = shape_lib and f = "\<lambda>d t. Inr d"]
    prior_expand_branch_edges
    [where rank = 2 and td = 3 and self = "init example_base 2 (Some 3)" and x = 4
       and fd = "MVN [2, 3] 4" and L = shape_lib and f = "\<lambda>d t. Inr d"]
  by (simp add: init_def example_base_def example_base_flat_def shape_lib_def
      prior_expands_def)

section \<open>kl\_divergence\<close>

lemma tensor_sum_last:
  assumes "shape kl \<noteq> []"
  shows "tensor_sum kl (- 1) =
     Inr \<lparr>shape = butlast (shape kl),
          entry = (\<lambda>idx. sum_list (map (\<lambda>j. entry kl (take (length (shape kl) - 1) idx
                                                    @ j # drop (length (shape kl) - 1) idx))
                                 [0 ..< last (shape kl)]))\<rparr>"
proof -
  let ?r = "length (shape kl)"
  from assms have r: "0 < ?r" by simp
  then have k: "nat (- 1 + int ?r) = ?r - 1" by simp
  have "take (?r - 1) (shape kl) @ drop (Suc (?r - 1)) (shape kl) = butlast (shape kl)"
    using r by (simp add: butlast_conv_take)
  moreover have "shape kl ! (?r - 1) = last (shape kl)"
    using assms by (simp add: last_conv_nth)
  ultimately show ?thesis
    using r k by (simp add: tensor_sum_def Let_def)
qed

text \<open>
  C8. The result of \<open>kl_divergence\<close> does not depend on \<open>task_dim\<close>: setting \<open>task_dim\<close> to
  any \<open>d\<close> gives the same result. It is the parent's KL tensor summed along its last axis:
  the shape loses its last entry and the entry at an index \<open>idx\<close> is the sum of the entries
  at \<open>idx @ [j]\<close> over the last axis. A KL tensor without axes is returned as it is.
\<close>

theorem kl_divergence_sums_last_axis:
  "kl_divergence (self\<lparr>task_dim := d\<rparr>) = kl_divergence self
   \<and> (super_kl_divergence self = Inr kl \<and> shape kl \<noteq> [] \<longrightarrow>
       (\<exists>res. kl_divergence (self\<lparr>task_dim := d\<rparr>) = Inr res
          \<and> shape res = butlast (shape kl)
          \<and> (\<forall>idx. length idx = length (shape res) \<longrightarrow>
                entry res idx = (\<Sum>j<last (shape kl). entry kl (idx @ [j])))))
   \<and> (super_kl_divergence self = Inr kl \<and> shape kl = [] \<longrightarrow>
       kl_divergence (self\<lparr>task_dim := d\<rparr>) = Inr kl)"
proof -
  have a: "kl_divergence (self\<lparr>task_dim := d\<rparr>) = kl_divergence self"
    by (simp add: kl_divergence_def super_kl_divergence_def)
  have b: "\<exists>res. kl_divergence self = Inr res
          \<and> shape res = butlast (shape kl)
          \<and> (\<forall>idx. length idx = length (shape res) \<longrightarrow>
                entry res idx = (\<Sum>j<last (shape kl). entry kl (idx @ [j])))"
    if "super_kl_divergence self = Inr kl" "shape kl \<noteq> []"
    using that
    by (simp add: kl_divergence_def tensor_sum_last interv_sum_list_conv_sum_set_nat
        atLeast0LessThan)
  have c: "kl_divergence self = Inr kl" if "super_kl_divergence self = Inr kl" "shape kl = []"
    using that by (simp add: kl_divergence_def tensor_sum_def)
  show ?thesis using a b c by auto
qed

theorem kl_divergence_sums_last_axis_witness:
  "super_kl_divergence (init example_base 2 None) = Inr example_kl
   \<and> shape example_kl = [2, 3]
   \<and> (\<exists>res. kl_divergence (init example_base 2 (Some 0)) = Inr res
        \<and> shape res = [2] \<and> entry res [0] = 1 + 2 + 3 \<and> entry res [1] = 4 + 5 + 6)"
  using kl_divergence_sums_last_axis
    [where self = "init example_base 2 None" and d = 0 and kl = example_kl]
  by (auto simp: init_def example_base_def example_kl_def super_kl_divergence_def
      lessThan_Suc numeral_3_eq_3)

text \<open>
  C1. With \<open>task_dim = 0\<close> and a KL tensor of shape \<open>[2, 3]\<close> (two tasks, rows \<open>1 2 3\<close> and
  \<open>4 5 6\<close>), \<open>kl_divergence\<close> returns the row sums \<open>6, 15\<close> of shape \<open>[2]\<close>: it has summed
  the last axis and kept the task axis. The sum over the task dimension is \<open>5, 7, 9\<close> of
  shape \<open>[3]\<close>.
\<close>

theorem kl_divergence_keeps_task_axis:
  "task_dim (init example_base 2 (Some 0)) = 0
   \<and> (\<exists>res. kl_divergence (init example_base 2 (Some 0)) = Inr res
        \<and> shape res = [2] \<and> entry res [0] = 6 \<and> entry res [1] = 15)
   \<and> (\<exists>res. kl_divergence_over_task_dim (init example_base 2 (Some 0)) = Inr res
        \<and> shape res = [3] \<and> entry res [0] = 5 \<and> entry res [1] = 7 \<and> entry res [2] = 9)
   \<and> kl_divergence (init example_base 2 (Some 0))
        \<noteq> kl_divergence_over_task_dim (init example_base 2 (Some 0))"
  by (auto simp: init_def example_base_def example_kl_def super_kl_divergence_def
      kl_divergence_def kl_divergence_over_task_dim_def tensor_sum_def Let_def
      numeral_2_eq_2 numeral_3_eq_3)

end
